theory Spec2Isabelle
  imports Main
begin

section \<open>The notebook's configuration cell\<close>

text \<open>
  The only code of the repository is the notebook
  \<^verbatim>\<open>azure-search-vector-python-langchain-sample.ipynb\<close>. Its second code cell reads the
  process environment and picks the credential of the search service:
  \<^verbatim>\<open>
  load_dotenv(override=True)
  endpoint = os.environ["AZURE_SEARCH_SERVICE_ENDPOINT"]
  key_credential = os.environ["AZURE_SEARCH_ADMIN_KEY"] if len(os.environ["AZURE_SEARCH_ADMIN_KEY"]) > 0 else None
  index_name = os.environ["AZURE_SEARCH_INDEX"]
  azure_openai_endpoint = os.environ["AZURE_OPENAI_ENDPOINT"]
  azure_openai_key = os.environ["AZURE_OPENAI_KEY"] if len(os.environ["AZURE_OPENAI_KEY"]) > 0 else None
  azure_openai_embedding_deployment = os.environ["AZURE_OPENAI_EMBEDDING_DEPLOYMENT"]
  azure_openai_api_version = os.environ["AZURE_OPENAI_API_VERSION"]

  credential = key_credential or DefaultAzureCredential()
  \<close>
  The environment is the one \<^verbatim>\<open>load_dotenv\<close> leaves behind: a dictionary from names to
  strings. Reading a name that is not set raises \<^verbatim>\<open>KeyError\<close>, which ends the cell.
  \<^verbatim>\<open>DefaultAzureCredential\<close> is the constructor of a library class. It is not part of the
  repository, reads the process environment and may raise, so it is a parameter of the
  model: a function from the environment to an exception or the object it builds.
\<close>

subsection \<open>Python values and errors\<close>

text \<open>
  \<^verbatim>\<open>KeyError\<close> carries the missing name; any other exception is known by its class name.
\<close>

datatype py_error = KeyError string | OtherException string

type_synonym environ = "string \<rightharpoonup> string"

text \<open>\<^verbatim>\<open>os.environ[name]\<close>\<close>

definition environ_getitem :: "environ \<Rightarrow> string \<Rightarrow> py_error + string" where
  "environ_getitem env name =
     (case env name of None \<Rightarrow> Inl (KeyError name) | Some v \<Rightarrow> Inr v)"

text \<open>
  \<^verbatim>\<open>os.environ[name] if len(os.environ[name]) > 0 else None\<close>: the condition is evaluated
  first and reads the variable; the first branch reads it again.
\<close>

definition environ_nonempty_or_None :: "environ \<Rightarrow> string \<Rightarrow> py_error + string option" where
  "environ_nonempty_or_None env name =
     (case environ_getitem env name of
        Inl e \<Rightarrow> Inl e
      | Inr c \<Rightarrow>
          if length c > 0
          then (case environ_getitem env name of Inl e \<Rightarrow> Inl e | Inr v \<Rightarrow> Inr (Some v))
          else Inr None)"

text \<open>
  The value bound to \<^verbatim>\<open>credential\<close> is either the key string itself or the object that
  \<^verbatim>\<open>DefaultAzureCredential()\<close> constructs; \<open>'c\<close> is the type of such objects.
\<close>

datatype 'c credential = KeyString string | DefaultAzureCredential 'c

text \<open>The library's constructor, called with no argument in the environment at hand.\<close>

type_synonym 'c constructor = "environ \<Rightarrow> py_error + 'c"

text \<open>Truth value of an optional string: \<^verbatim>\<open>None\<close> and the empty string are false.\<close>

definition py_truthy :: "string option \<Rightarrow> bool" where
  "py_truthy v = (case v of None \<Rightarrow> False | Some s \<Rightarrow> s \<noteq> [])"

text \<open>
  The call \<^verbatim>\<open>DefaultAzureCredential()\<close>: the object built, or the exception raised. The
  second component records that the call was made, whichever way it ended.
\<close>

definition call_constructor ::
  "'c constructor \<Rightarrow> environ \<Rightarrow> (py_error + 'c credential) \<times> string list" where
  "call_constructor ctor env =
     ((case ctor env of Inl e \<Rightarrow> Inl e | Inr c \<Rightarrow> Inr (DefaultAzureCredential c)),
      [''DefaultAzureCredential''])"

text \<open>
  \<^verbatim>\<open>key_credential or DefaultAzureCredential()\<close>. Python's \<^verbatim>\<open>or\<close> returns its left operand
  when it is true and only otherwise evaluates the right one, so the constructor is called in
  the second case alone. The second component lists the constructor calls made.
\<close>

definition credential_or_default ::
  "'c constructor \<Rightarrow> environ \<Rightarrow> string option \<Rightarrow> (py_error + 'c credential) \<times> string list" where
  "credential_or_default ctor env k =
     (case k of
        Some s \<Rightarrow> if py_truthy k then (Inr (KeyString s), [])
                  else call_constructor ctor env
      | None \<Rightarrow> call_constructor ctor env)"

subsection \<open>The cell\<close>

record 'c settings =
  endpoint :: string
  key_credential :: "string option"
  index_name :: string
  azure_openai_endpoint :: string
  azure_openai_key :: "string option"
  azure_openai_embedding_deployment :: string
  azure_openai_api_version :: string
  credential :: "'c credential"

text \<open>Sequencing of statements that may raise: the first error ends the cell.\<close>

definition and_then :: "py_error + 'a \<Rightarrow> ('a \<Rightarrow> py_error + 'b) \<Rightarrow> py_error + 'b" where
  "and_then r f = (case r of Inl e \<Rightarrow> Inl e | Inr v \<Rightarrow> f v)"

text \<open>
  The seven assignments that read the environment, in the order of the cell: the values
  they bind, or the \<^verbatim>\<open>KeyError\<close> of the first variable that is not set.
\<close>

definition read_environment ::
  "environ \<Rightarrow>
   py_error + (string \<times> string option \<times> string \<times> string \<times> string option \<times> string \<times> string)" where
  "read_environment env =
     and_then (environ_getitem env ''AZURE_SEARCH_SERVICE_ENDPOINT'') (\<lambda>v1.
     and_then (environ_nonempty_or_None env ''AZURE_SEARCH_ADMIN_KEY'') (\<lambda>v2.
     and_then (environ_getitem env ''AZURE_SEARCH_INDEX'') (\<lambda>v3.
     and_then (environ_getitem env ''AZURE_OPENAI_ENDPOINT'') (\<lambda>v4.
     and_then (environ_nonempty_or_None env ''AZURE_OPENAI_KEY'') (\<lambda>v5.
     and_then (environ_getitem env ''AZURE_OPENAI_EMBEDDING_DEPLOYMENT'') (\<lambda>v6.
     and_then (environ_getitem env ''AZURE_OPENAI_API_VERSION'') (\<lambda>v7.
       Inr (v1, v2, v3, v4, v5, v6, v7))))))))"

text \<open>
  The cell, statement by statement. Its first component is the variables it binds when it
  finishes, or the exception that ends it: a \<^verbatim>\<open>KeyError\<close> of the seven reads, or whatever
  the constructor raises in the last line, in which case \<^verbatim>\<open>credential\<close> is not bound. Its
  second component lists the constructor calls the last line made.
\<close>

definition load_settings ::
  "'c constructor \<Rightarrow> environ \<Rightarrow> (py_error + 'c settings) \<times> string list" where
  "load_settings ctor env =
     (case read_environment env of
        Inl e \<Rightarrow> (Inl e, [])
      | Inr (v1, v2, v3, v4, v5, v6, v7) \<Rightarrow>
          let (r, calls) = credential_or_default ctor env v2 in
          (and_then r (\<lambda>c.
             Inr \<lparr> endpoint = v1, key_credential = v2, index_name = v3,
                   azure_openai_endpoint = v4, azure_openai_key = v5,
                   azure_openai_embedding_deployment = v6,
                   azure_openai_api_version = v7, credential = c \<rparr>), calls))"

text \<open>The variables the cell reads; each must be set for the cell to finish.\<close>

definition required_variables :: "string list" where
  "required_variables =
     [''AZURE_SEARCH_SERVICE_ENDPOINT'', ''AZURE_SEARCH_ADMIN_KEY'', ''AZURE_SEARCH_INDEX'',
      ''AZURE_OPENAI_ENDPOINT'', ''AZURE_OPENAI_KEY'', ''AZURE_OPENAI_EMBEDDING_DEPLOYMENT'',
      ''AZURE_OPENAI_API_VERSION'']"

subsection \<open>The vector store's arguments\<close>

text \<open>
  The fourth code cell hands the key on:
  \<^verbatim>\<open>
  vector_store = AzureSearch(
      azure_search_endpoint=endpoint,
      azure_search_key=key_credential,
      index_name=index_name,
      embedding_function=embeddings.embed_query,
      semantic_configuration_name="default"
  )
  \<close>
  The constructor belongs to a library; only the arguments the notebook passes are modelled
  (the embedding function is left out). The call reads \<^verbatim>\<open>key_credential\<close>; the variable
  \<^verbatim>\<open>credential\<close> of the second cell is read nowhere in the notebook. What the library does
  with a key that is \<^verbatim>\<open>None\<close> is outside the repository and not modelled.
\<close>

record azure_search_args =
  azure_search_endpoint :: string
  azure_search_key :: "string option"
  args_index_name :: string
  semantic_configuration_name :: string

definition vector_store_args :: "'c settings \<Rightarrow> azure_search_args" where
  "vector_store_args s =
     \<lparr> azure_search_endpoint = endpoint s, azure_search_key = key_credential s,
       args_index_name = index_name s, semantic_configuration_name = ''default'' \<rparr>"

subsection \<open>A sample environment and constructor\<close>

text \<open>
  An environment with every variable of the cell set, the search key being the argument
  and the OpenAI key the empty string.
\<close>

definition sample_environ :: "string \<Rightarrow> environ" where
  "sample_environ k =
     map_of [(''AZURE_SEARCH_SERVICE_ENDPOINT'', ''https://example.search.windows.net''),
             (''AZURE_SEARCH_ADMIN_KEY'', k),
             (''AZURE_SEARCH_INDEX'', ''langchain-index''),
             (''AZURE_OPENAI_ENDPOINT'', ''https://example.openai.azure.com''),
             (''AZURE_OPENAI_KEY'', []),
             (''AZURE_OPENAI_EMBEDDING_DEPLOYMENT'', ''text-embedding-ada-002''),
             (''AZURE_OPENAI_API_VERSION'', ''2023-05-15'')]"

text \<open>The same environment with one more variable, which the cell itself never reads.\<close>

definition sample_environ_bogus :: "string \<Rightarrow> environ" where
  "sample_environ_bogus k = (sample_environ k)(''AZURE_TOKEN_CREDENTIALS'' \<mapsto> ''bogus'')"

text \<open>
  A constructor that rejects that variable's value with a \<^verbatim>\<open>ValueError\<close> and otherwise
  builds the object \<open>0\<close>.
\<close>

definition sample_constructor :: "nat constructor" where
  "sample_constructor env =
     (if env ''AZURE_TOKEN_CREDENTIALS'' = Some ''bogus''
      then Inl (OtherException ''ValueError'') else Inr 0)"


section \<open>Properties\<close>

lemma environ_getitem_Some:
  "env name = Some v \<Longrightarrow> environ_getitem env name = Inr v"
  by (simp add: environ_getitem_def)

lemma environ_nonempty_or_None_Some:
  "env name = Some v \<Longrightarrow>
   environ_nonempty_or_None env name = Inr (if v = [] then None else Some v)"
  by (simp add: environ_nonempty_or_None_def environ_getitem_def)

lemma credential_or_default_None:
  "credential_or_default ctor env None = call_constructor ctor env"
  by (simp add: credential_or_default_def)

lemma credential_or_default_nonempty:
  "v \<noteq> [] \<Longrightarrow> credential_or_default ctor env (Some v) = (Inr (KeyString v), [])"
  by (simp add: credential_or_default_def py_truthy_def)

lemma required_set:
  assumes "set required_variables \<subseteq> dom env"
  shows "\<exists>a b c d e f g.
     env ''AZURE_SEARCH_SERVICE_ENDPOINT'' = Some a \<and>
     env ''AZURE_SEARCH_ADMIN_KEY'' = Some b \<and>
     env ''AZURE_SEARCH_INDEX'' = Some c \<and>
     env ''AZURE_OPENAI_ENDPOINT'' = Some d \<and>
     env ''AZURE_OPENAI_KEY'' = Some e \<and>
     env ''AZURE_OPENAI_EMBEDDING_DEPLOYMENT'' = Some f \<and>
     env ''AZURE_OPENAI_API_VERSION'' = Some g"
  using assms unfolding required_variables_def by auto

text \<open>With every variable set, the seven reads finish and bind what the environment holds.\<close>

lemma read_environment_all_set:
  assumes "env ''AZURE_SEARCH_SERVICE_ENDPOINT'' = Some a"
    and "env ''AZURE_SEARCH_ADMIN_KEY'' = Some b"
    and "env ''AZURE_SEARCH_INDEX'' = Some c"
    and "env ''AZURE_OPENAI_ENDPOINT'' = Some d"
    and "env ''AZURE_OPENAI_KEY'' = Some e"
    and "env ''AZURE_OPENAI_EMBEDDING_DEPLOYMENT'' = Some f"
    and "env ''AZURE_OPENAI_API_VERSION'' = Some g"
  shows "read_environment env =
     Inr (a, if b = [] then None else Some b, c, d, if e = [] then None else Some e, f, g)"
  using assms
  by (simp add: read_environment_def and_then_def environ_getitem_Some
      environ_nonempty_or_None_Some)

text \<open>The vector store's arguments do not depend on \<^verbatim>\<open>credential\<close>.\<close>

lemma vector_store_args_credential:
  "vector_store_args (s\<lparr>credential := c\<rparr>) = vector_store_args s"
  by (simp add: vector_store_args_def)

text \<open>
  C10. Let every variable the cell reads be set, \<^verbatim>\<open>AZURE_SEARCH_ADMIN_KEY\<close> to \<open>v\<close>.
  Line 68 then evaluates to \<^verbatim>\<open>None\<close> when \<open>v\<close> is the empty string and to \<open>v\<close> otherwise.

  When \<open>v\<close> is empty, the last line calls \<^verbatim>\<open>DefaultAzureCredential()\<close> exactly once. If the
  constructor raises, the cell ends with that exception and \<^verbatim>\<open>credential\<close> is not bound. If
  it returns an object, the cell finishes with \<^verbatim>\<open>key_credential\<close> being \<^verbatim>\<open>None\<close> and
  \<^verbatim>\<open>credential\<close> being that object.

  When \<open>v\<close> is not empty, the cell finishes without calling the constructor, whatever the
  constructor would have done, and \<open>v\<close> is both \<^verbatim>\<open>key_credential\<close> and \<^verbatim>\<open>credential\<close>.

  In both cases what the notebook hands to the vector store is \<^verbatim>\<open>key_credential\<close> (no key,
  or \<open>v\<close>), and never \<^verbatim>\<open>credential\<close>: the arguments are the same whatever \<^verbatim>\<open>credential\<close>
  is bound to. The fallback of the notebook's own code is the binding of \<^verbatim>\<open>credential\<close>
  alone; authenticating without a key is left to the library.
\<close>

theorem search_key_empty_is_absent:
  assumes allset: "set required_variables \<subseteq> dom env"
    and key: "env ''AZURE_SEARCH_ADMIN_KEY'' = Some v"
  shows "environ_nonempty_or_None env ''AZURE_SEARCH_ADMIN_KEY'' =
           Inr (if v = [] then None else Some v) \<and>
     (if v = []
      then (case ctor env of
              Inl e \<Rightarrow> load_settings ctor env = (Inl e, [''DefaultAzureCredential''])
            | Inr c \<Rightarrow>
                (\<exists>s. load_settings ctor env = (Inr s, [''DefaultAzureCredential'']) \<and>
                   key_credential s = None \<and> credential s = DefaultAzureCredential c \<and>
                   azure_search_key (vector_store_args s) = None \<and>
                   (\<forall>c'. vector_store_args (s\<lparr>credential := c'\<rparr>) = vector_store_args s)))
      else (\<exists>s. load_settings ctor env = (Inr s, []) \<and>
              key_credential s = Some v \<and> credential s = KeyString v \<and>
              azure_search_key (vector_store_args s) = Some v \<and>
              (\<forall>c'. vector_store_args (s\<lparr>credential := c'\<rparr>) = vector_store_args s)))"
proof -
  from required_set [OF allset] obtain a b c d e f g where
    vars: "env ''AZURE_SEARCH_SERVICE_ENDPOINT'' = Some a"
      "env ''AZURE_SEARCH_ADMIN_KEY'' = Some b"
      "env ''AZURE_SEARCH_INDEX'' = Some c"
      "env ''AZURE_OPENAI_ENDPOINT'' = Some d"
      "env ''AZURE_OPENAI_KEY'' = Some e"
      "env ''AZURE_OPENAI_EMBEDDING_DEPLOYMENT'' = Some f"
      "env ''AZURE_OPENAI_API_VERSION'' = Some g"
    by blast
  from vars(2) key have b: "b = v" by simp
  have line68: "environ_nonempty_or_None env ''AZURE_SEARCH_ADMIN_KEY'' =
      Inr (if v = [] then None else Some v)"
    using key by (simp add: environ_nonempty_or_None_Some)
  have reads: "read_environment env =
      Inr (a, if v = [] then None else Some v, c, d, if e = [] then None else Some e, f, g)"
    using read_environment_all_set [OF vars] b by simp
  have cell: "(if v = []
      then (case ctor env of
              Inl e \<Rightarrow> load_settings ctor env = (Inl e, [''DefaultAzureCredential''])
            | Inr c \<Rightarrow>
                (\<exists>s. load_settings ctor env = (Inr s, [''DefaultAzureCredential'']) \<and>
                   key_credential s = None \<and> credential s = DefaultAzureCredential c \<and>
                   azure_search_key (vector_store_args s) = None \<and>
                   (\<forall>c'. vector_store_args (s\<lparr>credential := c'\<rparr>) = vector_store_args s)))
      else (\<exists>s. load_settings ctor env = (Inr s, []) \<and>
              key_credential s = Some v \<and> credential s = KeyString v \<and>
              azure_search_key (vector_store_args s) = Some v \<and>
              (\<forall>c'. vector_store_args (s\<lparr>credential := c'\<rparr>) = vector_store_args s)))"
  proof (cases "v = []")
    case True
    show ?thesis
    proof (cases "ctor env")
      case (Inl x)
      with True reads show ?thesis
        by (simp add: load_settings_def credential_or_default_None call_constructor_def
            and_then_def)
    next
      case (Inr y)
      with True reads show ?thesis
        by (simp add: load_settings_def credential_or_default_None call_constructor_def
            and_then_def vector_store_args_def)
    qed
  next
    case False
    with reads show ?thesis
      by (simp add: load_settings_def credential_or_default_nonempty and_then_def
          vector_store_args_def)
  qed
  from line68 cell show ?thesis by (rule conjI)
qed

text \<open>
  The theorem at the sample constructor, three times: with the empty key where the
  constructor returns, with the empty key where it raises, and with the key
  \<^verbatim>\<open>secret\<close> in the environment where the constructor would raise.
\<close>

lemma sample_environ_all_set:
  "set required_variables \<subseteq> dom (sample_environ k)"
  by (simp add: required_variables_def sample_environ_def)

lemma sample_environ_key:
  "sample_environ k ''AZURE_SEARCH_ADMIN_KEY'' = Some k"
  by (simp add: sample_environ_def)

lemma sample_environ_bogus_all_set:
  "set required_variables \<subseteq> dom (sample_environ_bogus k)"
  by (simp add: required_variables_def sample_environ_bogus_def sample_environ_def)

lemma sample_environ_bogus_key:
  "sample_environ_bogus k ''AZURE_SEARCH_ADMIN_KEY'' = Some k"
  by (simp add: sample_environ_bogus_def sample_environ_def)

lemma sample_constructor_returns:
  "sample_constructor (sample_environ k) = Inr 0"
  by (simp add: sample_constructor_def sample_environ_def)

lemma sample_constructor_raises:
  "sample_constructor (sample_environ_bogus k) = Inl (OtherException ''ValueError'')"
  by (simp add: sample_constructor_def sample_environ_bogus_def)

theorem search_key_empty_is_absent_witness:
  "set required_variables \<subseteq> dom (sample_environ []) \<and>
   sample_environ [] ''AZURE_SEARCH_ADMIN_KEY'' = Some [] \<and>
   (\<exists>s. load_settings sample_constructor (sample_environ []) =
           (Inr s, [''DefaultAzureCredential'']) \<and>
      key_credential s = None \<and> credential s = DefaultAzureCredential 0 \<and>
      azure_search_key (vector_store_args s) = None) \<and>
   set required_variables \<subseteq> dom (sample_environ_bogus []) \<and>
   sample_environ_bogus [] ''AZURE_SEARCH_ADMIN_KEY'' = Some [] \<and>
   load_settings sample_constructor (sample_environ_bogus []) =
     (Inl (OtherException ''ValueError''), [''DefaultAzureCredential'']) \<and>
   set required_variables \<subseteq> dom (sample_environ_bogus ''secret'') \<and>
   sample_environ_bogus ''secret'' ''AZURE_SEARCH_ADMIN_KEY'' = Some ''secret'' \<and>
   (\<exists>s. load_settings sample_constructor (sample_environ_bogus ''secret'') = (Inr s, []) \<and>
      key_credential s = Some ''secret'' \<and> credential s = KeyString ''secret'' \<and>
      azure_search_key (vector_store_args s) = Some ''secret'')"
proof -
  have returns: "\<exists>s. load_settings sample_constructor (sample_environ []) =
           (Inr s, [''DefaultAzureCredential'']) \<and>
      key_credential s = None \<and> credential s = DefaultAzureCredential 0 \<and>
      azure_search_key (vector_store_args s) = None"
    using search_key_empty_is_absent
      [OF sample_environ_all_set [of "[]"] sample_environ_key [of "[]"],
       of sample_constructor]
    by (simp add: sample_constructor_returns) blast
  have raises: "load_settings sample_constructor (sample_environ_bogus []) =
     (Inl (OtherException ''ValueError''), [''DefaultAzureCredential''])"
    using search_key_empty_is_absent
      [OF sample_environ_bogus_all_set [of "[]"] sample_environ_bogus_key [of "[]"],
       of sample_constructor]
    by (simp add: sample_constructor_raises)
  have keyed: "\<exists>s. load_settings sample_constructor (sample_environ_bogus ''secret'') =
           (Inr s, []) \<and>
      key_credential s = Some ''secret'' \<and> credential s = KeyString ''secret'' \<and>
      azure_search_key (vector_store_args s) = Some ''secret''"
    using search_key_empty_is_absent
      [OF sample_environ_bogus_all_set [of "''secret''"]
          sample_environ_bogus_key [of "''secret''"],
       of sample_constructor]
    by simp blast
  show ?thesis
    using returns raises keyed sample_environ_all_set sample_environ_key
      sample_environ_bogus_all_set sample_environ_bogus_key
    by blast
qed

end
